theory Spec2Isabelle
  imports Main
begin

section \<open>Python values used by the handlers\<close>

text \<open>
  A Python \<open>str\<close> is a sequence of Unicode code points, so a string is a list of
  code points here. Literals of the source are written with \<open>lit\<close>.
\<close>

type_synonym pystr = "nat list"

definition lit :: "string \<Rightarrow> pystr" where
  "lit s = map of_char s"

text \<open>
  \<open>str.strip()\<close> without argument removes leading and trailing white space, which for
  \<open>str\<close> is the set of code points for which \<open>str.isspace\<close> holds.
\<close>

definition isspace :: "nat \<Rightarrow> bool" where
  "isspace c \<longleftrightarrow>
     (9 \<le> c \<and> c \<le> 13) \<or> (28 \<le> c \<and> c \<le> 32) \<or> c = 133 \<or> c = 160 \<or> c = 5760 \<or>
     (8192 \<le> c \<and> c \<le> 8202) \<or> c = 8232 \<or> c = 8233 \<or> c = 8239 \<or> c = 8287 \<or> c = 12288"

definition strip :: "pystr \<Rightarrow> pystr" where
  "strip s = rev (dropWhile isspace (rev (dropWhile isspace s)))"

datatype exn = IntegrityError | AttributeError | KeyError | OverflowError | OtherException pystr

text \<open>
  The values the handlers pass to a text column: \<open>None\<close> (a form field that is absent, a
  spreadsheet without the column), the float \<open>nan\<close> that pandas puts in a blank cell, a
  string, or any other value of a cell: \<open>pd.read_excel\<close> returns a number for a numeric
  cell (the float \<open>123.0\<close> for the cell 123 of a column that has a blank) and a time stamp
  for a date. Of such a value the code uses two things only, and \<open>PyOther\<close> carries them:
  the text that \<open>str\<close> returns for it (\<open>123.0\<close> for that float), and what the driver does
  when the value is bound to a text column (the text it stores, or the exception it
  raises for a type it does not bind).
\<close>

datatype pyval = PyNone | PyNaN | PyStr pystr | PyOther pystr "exn + pystr"

fun str :: "pyval \<Rightarrow> pystr" where
  "str PyNone = lit ''None''"
| "str PyNaN = lit ''nan''"
| "str (PyStr s) = s"
| "str (PyOther shown bound) = shown"

fun of_get :: "pystr option \<Rightarrow> pyval" where
  "of_get None = PyNone"
| "of_get (Some v) = PyStr v"

section \<open>models.py\<close>

text \<open>
  The three tables. Every column of the source is declared \<open>nullable=False\<close> (or is the
  primary key), so a stored row has a value in every field; the check is made when a
  row is written (\<open>sql_text\<close> below).
\<close>

record category =
  cat_id :: nat
  cat_name :: pystr

record contact =
  con_id :: nat
  con_name :: pystr
  con_phone :: pystr
  con_category_id :: nat

record user =
  user_id :: nat
  username :: pystr
  password_hash :: pystr

text \<open>
  What the SQLite driver binds for a text column: \<open>None\<close> is NULL, and so is the float
  \<open>nan\<close> (SQLite stores a NaN as NULL); binding may raise for another value.
\<close>

fun sql_text :: "pyval \<Rightarrow> exn + pystr option" where
  "sql_text PyNone = Inr None"
| "sql_text PyNaN = Inr None"
| "sql_text (PyStr s) = Inr (Some s)"
| "sql_text (PyOther shown (Inl e)) = Inl e"
| "sql_text (PyOther shown (Inr stored)) = Inr (Some stored)"

text \<open>An integer primary key without a supplied value: one more than the largest in the table.\<close>

definition next_id :: "nat list \<Rightarrow> nat" where
  "next_id ids = Suc (fold max ids 0)"

section \<open>The application state\<close>

datatype endpoint = Dashboard | ViewContacts nat | Login

datatype response =
    Redirect endpoint
  | RenderTemplate string
  | Abort nat
  | Uncaught exn

datatype fmsg = Plain string | WithText string pystr | WithExn string exn

record sms_request =
  url :: string
  key :: "pystr option"
  recipient :: "pystr list"
  sender :: "pystr option"
  message :: pystr

datatype post_result = Response int pystr | Raises exn

record config =
  SENDER_ID :: "pystr option"
  MNOTIFY_API_KEY :: "pystr option"

record state =
  categories :: "category list"
  contacts :: "contact list"
  users :: "user list"
  session_user_id :: "nat option"
  flashes :: "(fmsg \<times> string) list"
  outbox :: "sms_request list"

definition flash :: "fmsg \<Rightarrow> string \<Rightarrow> state \<Rightarrow> state" where
  "flash m c s = s\<lparr>flashes := flashes s @ [(m, c)]\<rparr>"

subsection \<open>Queries\<close>

text \<open>
  A primary key is an SQLite INTEGER, a signed 64-bit integer: no row has a larger key.
  \<open>get_category\<close> and \<open>get_contact\<close> are the rows with a given key. \<open>Category.query.get\<close>
  and \<open>Contact.query.get\<close> bind the key as a parameter of the query, and binding an
  integer from \<open>2 ^ 63\<close> on raises \<open>OverflowError\<close>; the route converter \<open>int\<close> accepts
  any sequence of digits.
\<close>

definition get_category :: "state \<Rightarrow> nat \<Rightarrow> category option" where
  "get_category s i = (if i < 2 ^ 63 then find (\<lambda>c. cat_id c = i) (categories s) else None)"

definition get_contact :: "state \<Rightarrow> nat \<Rightarrow> contact option" where
  "get_contact s i = (if i < 2 ^ 63 then find (\<lambda>c. con_id c = i) (contacts s) else None)"

definition category_query_get :: "state \<Rightarrow> nat \<Rightarrow> exn + category option" where
  "category_query_get s i = (if i < 2 ^ 63 then Inr (get_category s i) else Inl OverflowError)"

definition contact_query_get :: "state \<Rightarrow> nat \<Rightarrow> exn + contact option" where
  "contact_query_get s i = (if i < 2 ^ 63 then Inr (get_contact s i) else Inl OverflowError)"

definition category_by_name :: "state \<Rightarrow> pystr \<Rightarrow> category option" where
  "category_by_name s n = find (\<lambda>c. cat_name c = n) (categories s)"

definition user_by_username :: "state \<Rightarrow> pystr \<Rightarrow> user option" where
  "user_by_username s n = find (\<lambda>u. username u = n) (users s)"

definition category_contacts :: "state \<Rightarrow> category \<Rightarrow> contact list" where
  "category_contacts s c = filter (\<lambda>k. con_category_id k = cat_id c) (contacts s)"

subsection \<open>Writes, with the constraints of the schema\<close>

text \<open>\<open>Category(name=...)\<close>, added and committed: the name is unique.\<close>

definition insert_category :: "state \<Rightarrow> pystr \<Rightarrow> exn + state" where
  "insert_category s n =
     (if category_by_name s n \<noteq> None then Inl IntegrityError
      else Inr (s\<lparr>categories := categories s @
                   [\<lparr>cat_id = next_id (map cat_id (categories s)), cat_name = n\<rparr>]\<rparr>))"

text \<open>
  \<open>db.session.delete(category)\<close>, committed. The relationship \<open>contacts\<close> declares no
  delete cascade, so the unit of work detaches the children by writing NULL to their
  \<open>category_id\<close>, which the column (\<open>nullable=False\<close>) rejects: with a child the commit
  raises and nothing is written.
\<close>

definition session_delete_category :: "state \<Rightarrow> category \<Rightarrow> exn + state" where
  "session_delete_category s c =
     (if category_contacts s c \<noteq> [] then Inl IntegrityError
      else Inr (s\<lparr>categories := filter (\<lambda>x. cat_id x \<noteq> cat_id c) (categories s)\<rparr>))"

text \<open>
  The \<open>Contact(name=..., phone=..., category_id=...)\<close> objects added to the session,
  written in order by one commit; a NULL in \<open>name\<close> or \<open>phone\<close> fails the whole commit.
\<close>

fun insert_contacts :: "contact list \<Rightarrow> (pyval \<times> pyval \<times> nat) list \<Rightarrow> exn + contact list" where
  "insert_contacts cs [] = Inr cs"
| "insert_contacts cs ((n, p, k) # ps) =
     (case sql_text n of
        Inl e \<Rightarrow> Inl e
      | Inr vn \<Rightarrow>
          (case sql_text p of
             Inl e \<Rightarrow> Inl e
           | Inr vp \<Rightarrow>
               (case vn of
                  None \<Rightarrow> Inl IntegrityError
                | Some n' \<Rightarrow>
                    (case vp of
                       None \<Rightarrow> Inl IntegrityError
                     | Some p' \<Rightarrow>
                         insert_contacts
                           (cs @ [\<lparr>con_id = next_id (map con_id cs), con_name = n',
                                   con_phone = p', con_category_id = k\<rparr>]) ps))))"

text \<open>The two assignments of \<open>edit_contact\<close>, committed.\<close>

definition update_contact :: "state \<Rightarrow> contact \<Rightarrow> pyval \<Rightarrow> pyval \<Rightarrow> exn + state" where
  "update_contact s c n p =
     (case sql_text n of
        Inl e \<Rightarrow> Inl e
      | Inr vn \<Rightarrow>
          (case sql_text p of
             Inl e \<Rightarrow> Inl e
           | Inr vp \<Rightarrow>
               (case vn of
                  None \<Rightarrow> Inl IntegrityError
                | Some n' \<Rightarrow>
                    (case vp of
                       None \<Rightarrow> Inl IntegrityError
                     | Some p' \<Rightarrow>
                         Inr (s\<lparr>contacts :=
                                map (\<lambda>x. if con_id x = con_id c
                                          then x\<lparr>con_name := n', con_phone := p'\<rparr> else x)
                                    (contacts s)\<rparr>)))))"

section \<open>app.py\<close>

subsection \<open>Login manager\<close>

definition load_user :: "state \<Rightarrow> nat \<Rightarrow> user option" where
  "load_user s uid = find (\<lambda>u. user_id u = uid) (users s)"

definition current_user :: "state \<Rightarrow> user option" where
  "current_user s = (case session_user_id s of None \<Rightarrow> None | Some uid \<Rightarrow> load_user s uid)"

definition is_authenticated :: "state \<Rightarrow> bool" where
  "is_authenticated s \<longleftrightarrow> current_user s \<noteq> None"

definition login_user :: "user \<Rightarrow> state \<Rightarrow> state" where
  "login_user u s = s\<lparr>session_user_id := Some (user_id u)\<rparr>"

text \<open>
  The decorator \<open>@login_required\<close>: without an authenticated user the view is not run;
  the login manager flashes its message (category \<open>info\<close>) and redirects to \<open>login\<close>.
\<close>

definition login_required :: "(state \<Rightarrow> response \<times> state) \<Rightarrow> state \<Rightarrow> response \<times> state" where
  "login_required view s =
     (if is_authenticated s then view s
      else (Redirect Login, flash (Plain ''Please log in to access this page.'') ''info'' s))"

subsection \<open>Category routes\<close>

definition add_category :: "(string \<rightharpoonup> pystr) \<Rightarrow> state \<Rightarrow> response \<times> state" where
  "add_category form = login_required (\<lambda>s.
     case form ''name'' of
       None \<Rightarrow> (Abort 400, s)
     | Some name \<Rightarrow>
         if strip name = [] then
           (Redirect Dashboard, flash (Plain ''Category name cannot be empty!'') ''danger'' s)
         else if category_by_name s name \<noteq> None then
           (Redirect Dashboard, flash (Plain ''Category already exists!'') ''warning'' s)
         else
           (case insert_category s name of
              Inl e \<Rightarrow> (Uncaught e, s)
            | Inr s' \<Rightarrow>
                (Redirect Dashboard, flash (Plain ''Category added successfully!'') ''success'' s')))"

definition delete_category :: "nat \<Rightarrow> state \<Rightarrow> response \<times> state" where
  "delete_category i = login_required (\<lambda>s.
     case category_query_get s i of
       Inl e \<Rightarrow> (Uncaught e, s)
     | Inr (Some category) \<Rightarrow>
         (case session_delete_category s category of
            Inl e \<Rightarrow> (Uncaught e, s)
          | Inr s' \<Rightarrow>
              (Redirect Dashboard, flash (Plain ''Category deleted successfully!'') ''success'' s'))
     | Inr None \<Rightarrow> (Redirect Dashboard, flash (Plain ''Category not found!'') ''danger'' s))"

subsection \<open>Contacts\<close>

text \<open>
  What \<open>pd.read_excel\<close> returns: the column labels and the rows, a blank cell being
  \<open>nan\<close>; the rows are the rows as \<open>df.iterrows()\<close> yields them. \<open>row[k]\<close> raises
  \<open>KeyError\<close> for a label the row does not have.
\<close>

record dataframe =
  columns :: "pystr list"
  rows :: "pyval list list"

definition row_get :: "pystr list \<Rightarrow> pyval list \<Rightarrow> pystr \<Rightarrow> pyval option" where
  "row_get cols r k = map_of (zip cols r) k"

text \<open>
  The uploaded file: its name, whether \<open>file.save\<close> raised, and what \<open>pd.read_excel\<close>
  does with the saved file. The file system is not part of the state.
\<close>

record upload =
  filename :: pystr
  save_raises :: "exn option"
  read_excel :: "exn + dataframe"

text \<open>The loop over \<open>df.iterrows()\<close>; \<open>pending\<close> are the objects added to the session so far.\<close>

fun iterrows :: "pystr list \<Rightarrow> nat \<Rightarrow> (pyval \<times> pyval \<times> nat) list \<Rightarrow> pyval list list \<Rightarrow>
    exn + (pyval \<times> pyval \<times> nat) list" where
  "iterrows cols cid pending [] = Inr pending"
| "iterrows cols cid pending (row # rest) =
     (if lit ''Phone'' \<in> set cols then
        (case row_get cols row (lit ''Phone'') of
           None \<Rightarrow> Inl KeyError
         | Some ph \<Rightarrow>
             (case (if lit ''Name'' \<in> set cols then row_get cols row (lit ''Name'')
                    else Some PyNone) of
                None \<Rightarrow> Inl KeyError
              | Some name \<Rightarrow>
                  iterrows cols cid (pending @ [(name, PyStr (str ph), cid)]) rest))
      else iterrows cols cid pending rest)"

definition upload_contacts :: "nat \<Rightarrow> (string \<rightharpoonup> upload) \<Rightarrow> state \<Rightarrow> response \<times> state" where
  "upload_contacts category_id files = login_required (\<lambda>s.
     case category_query_get s category_id of
       Inl e \<Rightarrow> (Uncaught e, s)
     | Inr None \<Rightarrow> (Abort 404, s)
     | Inr (Some category) \<Rightarrow>
         (case files ''file'' of
            None \<Rightarrow> (Abort 400, s)
          | Some file \<Rightarrow>
              if filename file = [] then
                (Redirect (ViewContacts category_id), flash (Plain ''No file selected!'') ''danger'' s)
              else
                (case save_raises file of
                   Some e \<Rightarrow> (Uncaught e, s)
                 | None \<Rightarrow>
                     (Redirect (ViewContacts category_id),
                      (case read_excel file of
                         Inl e \<Rightarrow> flash (WithExn ''Error uploading contacts: '' e) ''danger'' s
                       | Inr df \<Rightarrow>
                           (case iterrows (columns df) (cat_id category) [] (rows df) of
                              Inl e \<Rightarrow> flash (WithExn ''Error uploading contacts: '' e) ''danger'' s
                            | Inr pending \<Rightarrow>
                                (case insert_contacts (contacts s) pending of
                                   Inl e \<Rightarrow>
                                     flash (WithExn ''Error uploading contacts: '' e) ''danger'' s
                                 | Inr cs \<Rightarrow>
                                     flash (Plain ''Contacts uploaded successfully!'') ''success''
                                       (s\<lparr>contacts := cs\<rparr>))))))))"

definition add_contact :: "nat \<Rightarrow> (string \<rightharpoonup> pystr) \<Rightarrow> state \<Rightarrow> response \<times> state" where
  "add_contact category_id form = login_required (\<lambda>s.
     case category_query_get s category_id of
       Inl e \<Rightarrow> (Uncaught e, s)
     | Inr None \<Rightarrow> (Abort 404, s)
     | Inr (Some category) \<Rightarrow>
         (let name = form ''name''; phone = form ''phone'' in
          case phone of
            None \<Rightarrow> (Uncaught AttributeError, s)
          | Some ph \<Rightarrow>
              if strip ph = [] then
                (Redirect (ViewContacts category_id),
                 flash (Plain ''Phone number is required!'') ''danger'' s)
              else
                (case insert_contacts (contacts s) [(of_get name, PyStr ph, cat_id category)] of
                   Inl e \<Rightarrow> (Uncaught e, s)
                 | Inr cs \<Rightarrow>
                     (Redirect (ViewContacts category_id),
                      flash (Plain ''Contact added successfully!'') ''success''
                        (s\<lparr>contacts := cs\<rparr>)))))"

definition edit_contact :: "nat \<Rightarrow> (string \<rightharpoonup> pystr) \<Rightarrow> state \<Rightarrow> response \<times> state" where
  "edit_contact contact_id form = login_required (\<lambda>s.
     case contact_query_get s contact_id of
       Inl e \<Rightarrow> (Uncaught e, s)
     | Inr None \<Rightarrow> (Abort 404, s)
     | Inr (Some contact) \<Rightarrow>
         (case update_contact s contact (of_get (form ''name'')) (of_get (form ''phone'')) of
            Inl e \<Rightarrow> (Uncaught e, s)
          | Inr s' \<Rightarrow>
              (Redirect (ViewContacts (con_category_id contact)),
               flash (Plain ''Contact updated successfully!'') ''success'' s')))"

subsection \<open>Send SMS\<close>

text \<open>
  \<open>post\<close> is \<open>requests.post\<close>: the vendor's answer to a request, or the exception the call
  raises. \<open>outbox\<close> records every call made. \<open>payload\<close> is the dictionary sent as JSON.
\<close>

definition payload :: "pystr option \<Rightarrow> pystr list \<Rightarrow> pystr option \<Rightarrow> pystr \<Rightarrow> sms_request" where
  "payload api_key phones sender_id msg =
     \<lparr>url = ''https://api.mnotify.com/api/sms/quick'', key = api_key, recipient = phones,
      sender = sender_id, message = msg\<rparr>"

definition send_sms ::
    "config \<Rightarrow> (sms_request \<Rightarrow> post_result) \<Rightarrow> nat \<Rightarrow> (string \<rightharpoonup> pystr) \<Rightarrow> state \<Rightarrow>
     response \<times> state" where
  "send_sms env post category_id form = login_required (\<lambda>s.
     case category_query_get s category_id of
       Inl e \<Rightarrow> (Uncaught e, s)
     | Inr None \<Rightarrow> (Abort 404, s)
     | Inr (Some category) \<Rightarrow>
         (let sender_id = SENDER_ID env; api_key = MNOTIFY_API_KEY env;
              empty = (Redirect (ViewContacts (cat_id category)),
                       flash (Plain ''Message cannot be empty!'') ''danger'' s)
          in
          case form ''message'' of
            None \<Rightarrow> empty
          | Some msg \<Rightarrow>
              if msg = [] \<or> strip msg = [] then empty
              else
                (let phones = map con_phone (category_contacts s category) in
                 if phones = [] then
                   (Redirect (ViewContacts (cat_id category)),
                    flash (Plain ''No contacts found in this category!'') ''danger'' s)
                 else
                   (let request = payload api_key phones sender_id msg;
                        s1 = s\<lparr>outbox := outbox s @ [request]\<rparr>
                    in (Redirect (ViewContacts (cat_id category)),
                        (case post request of
                           Response status_code text \<Rightarrow>
                             if status_code = 200 then
                               flash (Plain ''Messages sent successfully!'') ''success'' s1
                             else flash (WithText ''Failed to send SMS: '' text) ''danger'' s1
                         | Raises e \<Rightarrow>
                             flash (WithExn ''Error sending SMS: '' e) ''danger'' s1))))))"

subsection \<open>Login\<close>

datatype http_method = GET | POST

text \<open>
  \<open>check_password_hash\<close> of werkzeug is a parameter: it decides whether a password
  matches a stored hash.
\<close>

definition check_password :: "(pystr \<Rightarrow> pystr \<Rightarrow> bool) \<Rightarrow> user \<Rightarrow> pystr \<Rightarrow> bool" where
  "check_password check_password_hash u password = check_password_hash (password_hash u) password"

definition login ::
    "(pystr \<Rightarrow> pystr \<Rightarrow> bool) \<Rightarrow> http_method \<Rightarrow> (string \<rightharpoonup> pystr) \<Rightarrow> state \<Rightarrow> response \<times> state" where
  "login check_password_hash method form s =
     (if method = POST then
        (case form ''username'' of
           None \<Rightarrow> (Abort 400, s)
         | Some uname \<Rightarrow>
             (case form ''password'' of
                None \<Rightarrow> (Abort 400, s)
              | Some password \<Rightarrow>
                  (case user_by_username s uname of
                     Some u \<Rightarrow>
                       if check_password check_password_hash u password then
                         (Redirect Dashboard,
                          flash (Plain ''Login successful!'') ''success'' (login_user u s))
                       else
                         (RenderTemplate ''login.html'',
                          flash (Plain ''Invalid username or password'') ''danger'' s)
                   | None \<Rightarrow>
                       (RenderTemplate ''login.html'',
                        flash (Plain ''Invalid username or password'') ''danger'' s))))
      else (RenderTemplate ''login.html'', s))"

section \<open>The persistent store and example data\<close>

text \<open>The three tables: what a handler leaves unchanged when it writes nothing.\<close>

definition store :: "state \<Rightarrow> category list \<times> contact list \<times> user list" where
  "store s = (categories s, contacts s, users s)"

text \<open>
  A small state: two categories, the first owning one contact, and the administrator
  of \<open>init_db.py\<close> logged in.
\<close>

definition parents :: category where
  "parents = \<lparr>cat_id = 1, cat_name = lit ''Parents''\<rparr>"

definition staff :: category where
  "staff = \<lparr>cat_id = 2, cat_name = lit ''Staff''\<rparr>"

definition ama :: contact where
  "ama = \<lparr>con_id = 1, con_name = lit ''Ama'', con_phone = lit ''0241234567'',
          con_category_id = 1\<rparr>"

definition admin :: user where
  "admin = \<lparr>user_id = 1, username = lit ''admin'', password_hash = lit ''hash-of-12345''\<rparr>"

definition school :: state where
  "school = \<lparr>categories = [parents, staff], contacts = [ama], users = [admin],
             session_user_id = Some 1, flashes = [], outbox = []\<rparr>"

text \<open>A configuration, three vendors and the forms used in the examples below.\<close>

definition demo_env :: config where
  "demo_env = \<lparr>SENDER_ID = Some (lit ''School''), MNOTIFY_API_KEY = Some (lit ''k-123'')\<rparr>"

definition vendor_ok :: "sms_request \<Rightarrow> post_result" where
  "vendor_ok r = Response 200 (lit ''sent'')"

definition vendor_refuses :: "sms_request \<Rightarrow> post_result" where
  "vendor_refuses r = Response 401 (lit ''invalid key'')"

definition vendor_down :: "sms_request \<Rightarrow> post_result" where
  "vendor_down r = Raises (OtherException (lit ''timed out''))"

definition hello :: "string \<rightharpoonup> pystr" where
  "hello = [''message'' \<mapsto> lit ''Hello'']"

text \<open>
  A visitor who is not logged in, a stand-in for \<open>check_password_hash\<close>, and the forms
  of the examples for \<open>login\<close> and \<open>edit_contact\<close>.
\<close>

definition visitor :: state where
  "visitor = school\<lparr>session_user_id := None\<rparr>"

definition check_demo :: "pystr \<Rightarrow> pystr \<Rightarrow> bool" where
  "check_demo h password \<longleftrightarrow> h = lit ''hash-of-'' @ password"

definition credentials :: "pystr \<Rightarrow> string \<rightharpoonup> pystr" where
  "credentials password = [''username'' \<mapsto> lit ''admin'', ''password'' \<mapsto> password]"

definition blanks :: "string \<rightharpoonup> pystr" where
  "blanks = [''name'' \<mapsto> [], ''phone'' \<mapsto> [32]]"

text \<open>
  Spreadsheets as \<open>pd.read_excel\<close> returns them and \<open>iterrows\<close> yields their rows. In the
  two-row and the three-row sheet the \<open>Phone\<close> cells hold the numbers 123 and 456 and the
  second row has a blank \<open>Phone\<close>: the column is read as floats, \<open>123.0\<close>, \<open>nan\<close>, \<open>456.0\<close>.
  The third row of the three-row sheet has a blank \<open>Name\<close>. \<open>phones_only\<close> has no \<open>Name\<close>
  column and one row, whose \<open>Phone\<close> cell is the text 456. \<open>workbook\<close> is the upload of a
  sheet.
\<close>

definition float_cell :: "string \<Rightarrow> pyval" where
  "float_cell shown = PyOther (lit shown) (Inr (lit shown))"

definition two_rows :: dataframe where
  "two_rows = \<lparr>columns = [lit ''Name'', lit ''Phone''],
                rows = [[PyStr (lit ''A''), float_cell ''123.0''],
                        [PyStr (lit ''B''), PyNaN]]\<rparr>"

definition three_rows :: dataframe where
  "three_rows = \<lparr>columns = [lit ''Name'', lit ''Phone''],
                  rows = [[PyStr (lit ''A''), float_cell ''123.0''],
                          [PyStr (lit ''B''), PyNaN],
                          [PyNaN, float_cell ''456.0'']]\<rparr>"

definition phones_only :: dataframe where
  "phones_only = \<lparr>columns = [lit ''Phone''], rows = [[PyStr (lit ''456'')]]\<rparr>"

definition workbook :: "dataframe \<Rightarrow> upload" where
  "workbook df = \<lparr>filename = lit ''contacts.xlsx'', save_raises = None, read_excel = Inr df\<rparr>"

definition xlsx :: "dataframe \<Rightarrow> string \<rightharpoonup> upload" where
  "xlsx df = [''file'' \<mapsto> workbook df]"

section \<open>Basic facts\<close>

lemma dropWhile_all: "(\<forall>x\<in>set (dropWhile P xs). P x) \<longleftrightarrow> (\<forall>x\<in>set xs. P x)"
  by (induction xs) auto

lemma strip_empty_iff: "strip s = [] \<longleftrightarrow> (\<forall>c\<in>set s. isspace c)"
  by (simp add: strip_def dropWhile_all)

lemma login_required_auth: "is_authenticated s \<Longrightarrow> login_required view s = view s"
  by (simp add: login_required_def)

lemma fold_max_ge: "a \<le> fold max xs (a::nat)"
  by (induction xs arbitrary: a) (auto intro: order_trans[OF max.cobounded2])

lemma fold_max_mem: "x \<in> set xs \<Longrightarrow> x \<le> fold max xs (a::nat)"
proof (induction xs arbitrary: a)
  case Nil
  then show ?case by simp
next
  case (Cons y ys)
  show ?case
  proof (cases "x = y")
    case True
    have "y \<le> max y a" by simp
    also have "\<dots> \<le> fold max ys (max y a)" by (rule fold_max_ge)
    finally show ?thesis using True by simp
  next
    case False
    with Cons.prems have "x \<in> set ys" by simp
    then show ?thesis using Cons.IH by simp
  qed
qed

lemma next_id_fresh: "next_id ids \<notin> set ids"
proof
  assume "next_id ids \<in> set ids"
  then have "next_id ids \<le> fold max ids 0" by (rule fold_max_mem)
  then show False by (simp add: next_id_def)
qed

lemma find_cat_id: "find (\<lambda>c. cat_id c = i) xs = Some c \<Longrightarrow> cat_id c = i"
  by (induction xs) (auto split: if_splits)

lemma get_category_id: "get_category s i = Some c \<Longrightarrow> cat_id c = i"
  by (auto simp: get_category_def dest: find_cat_id split: if_splits)

lemma category_query_get_present:
  "get_category s i = Some c \<Longrightarrow> category_query_get s i = Inr (Some c)"
  by (simp add: category_query_get_def get_category_def split: if_splits)

lemma contact_query_get_present:
  "get_contact s i = Some c \<Longrightarrow> contact_query_get s i = Inr (Some c)"
  by (simp add: contact_query_get_def get_contact_def split: if_splits)

lemma flash_store [simp]: "store (flash m c s) = store s"
  by (simp add: flash_def store_def)

lemma flash_fields [simp]:
  "categories (flash m c s) = categories s"
  "contacts (flash m c s) = contacts s"
  "users (flash m c s) = users s"
  "session_user_id (flash m c s) = session_user_id s"
  "outbox (flash m c s) = outbox s"
  "flashes (flash m c s) = flashes s @ [(m, c)]"
  by (simp_all add: flash_def)

lemma school_authenticated: "is_authenticated school"
  by (simp add: is_authenticated_def current_user_def load_user_def school_def admin_def)

lemma school_categories:
  "get_category school 1 = Some parents"
  "get_category school 2 = Some staff"
  "get_category school 7 = None"
  by (simp_all add: get_category_def school_def parents_def staff_def)

lemma school_contacts:
  "category_contacts school parents = [ama]"
  "category_contacts school staff = []"
  by (simp_all add: category_contacts_def school_def parents_def staff_def ama_def)

section \<open>Deleting a category\<close>

text \<open>
  C1 promises that deleting a category removes its contacts, and that no exception
  escapes for an id that is not in the store. The relationship of \<open>models.py\<close> declares
  no cascade. In the example state the category \<open>parents\<close> owns the contact \<open>ama\<close>:
  \<open>delete_category\<close> ends in an uncaught \<open>IntegrityError\<close> and removes neither. For the
  id \<open>2 ^ 63\<close>, which no category has, the lookup itself raises \<open>OverflowError\<close>.
\<close>

theorem delete_category_raises:
  "is_authenticated school \<and> get_category school 1 = Some parents \<and>
   category_contacts school parents = [ama] \<and>
   delete_category 1 school = (Uncaught IntegrityError, school) \<and>
   get_category school (2 ^ 63) = None \<and>
   delete_category (2 ^ 63) school = (Uncaught OverflowError, school)"
proof -
  have 1: "delete_category 1 school = (Uncaught IntegrityError, school)"
    unfolding delete_category_def login_required_auth [OF school_authenticated]
      category_query_get_present [OF school_categories(1)] session_delete_category_def
    by (simp add: school_contacts)
  have 2: "get_category school (2 ^ 63) = None"
    by (simp add: get_category_def)
  have 3: "delete_category (2 ^ 63) school = (Uncaught OverflowError, school)"
    unfolding delete_category_def login_required_auth [OF school_authenticated]
    by (simp add: category_query_get_def)
  show ?thesis
    by (intro conjI school_authenticated school_categories(1) school_contacts(1) 1 2 3)
qed

lemma nonblank_strip: "\<not> (\<forall>c\<in>set m. isspace c) \<Longrightarrow> m \<noteq> [] \<and> strip m \<noteq> []"
  by (auto simp: strip_empty_iff)

lemma category_by_name_None:
  "category_by_name s n = None \<longleftrightarrow> n \<notin> cat_name ` set (categories s)"
  by (auto simp: category_by_name_def find_None_iff)

lemma category_contacts_eq:
  "get_category s cid = Some c \<Longrightarrow>
   category_contacts s c = filter (\<lambda>k. con_category_id k = cid) (contacts s)"
  by (simp add: category_contacts_def get_category_id)

lemma hello_nonblank: "hello ''message'' = Some (lit ''Hello'')" "\<not> (\<forall>ch\<in>set (lit ''Hello''). isspace ch)"
  by (simp_all add: hello_def lit_def isspace_def)

section \<open>Adding a category\<close>

text \<open>
  C6: a name that is blank or only white space, or that equals (exactly) the name of a
  category of the store, leaves the store unchanged and flashes an error or a warning;
  any other name appends exactly one category with that name, under an id that no
  category had, and flashes the confirmation.
\<close>

theorem add_category_effect:
  assumes auth: "is_authenticated s" and name: "form ''name'' = Some name"
  shows
    "((\<forall>c\<in>set name. isspace c) \<longrightarrow>
        fst (add_category form s) = Redirect Dashboard \<and>
        store (snd (add_category form s)) = store s \<and>
        flashes (snd (add_category form s)) =
          flashes s @ [(Plain ''Category name cannot be empty!'', ''danger'')]) \<and>
     (\<not> (\<forall>c\<in>set name. isspace c) \<and> name \<in> cat_name ` set (categories s) \<longrightarrow>
        fst (add_category form s) = Redirect Dashboard \<and>
        store (snd (add_category form s)) = store s \<and>
        flashes (snd (add_category form s)) =
          flashes s @ [(Plain ''Category already exists!'', ''warning'')]) \<and>
     (\<not> (\<forall>c\<in>set name. isspace c) \<and> name \<notin> cat_name ` set (categories s) \<longrightarrow>
        fst (add_category form s) = Redirect Dashboard \<and>
        (\<exists>k. k \<notin> cat_id ` set (categories s) \<and>
             categories (snd (add_category form s)) =
               categories s @ [\<lparr>cat_id = k, cat_name = name\<rparr>]) \<and>
        contacts (snd (add_category form s)) = contacts s \<and>
        users (snd (add_category form s)) = users s \<and>
        flashes (snd (add_category form s)) =
          flashes s @ [(Plain ''Category added successfully!'', ''success'')])"
proof -
  have run: "add_category form s =
      (if strip name = [] then
         (Redirect Dashboard, flash (Plain ''Category name cannot be empty!'') ''danger'' s)
       else if category_by_name s name \<noteq> None then
         (Redirect Dashboard, flash (Plain ''Category already exists!'') ''warning'' s)
       else
         (case insert_category s name of
            Inl e \<Rightarrow> (Uncaught e, s)
          | Inr s' \<Rightarrow>
              (Redirect Dashboard, flash (Plain ''Category added successfully!'') ''success'' s')))"
    unfolding add_category_def using auth name by (simp add: login_required_auth)
  have blank: ?thesis if "\<forall>c\<in>set name. isspace c"
    using that by (simp add: run strip_empty_iff)
  have dup: ?thesis if "\<not> (\<forall>c\<in>set name. isspace c)" "name \<in> cat_name ` set (categories s)"
  proof -
    have "category_by_name s name \<noteq> None"
      using that(2) by (simp add: category_by_name_None)
    moreover have "strip name \<noteq> []"
      using nonblank_strip [OF that(1)] by simp
    ultimately show ?thesis using that by (simp add: run)
  qed
  have new: ?thesis
    if nb: "\<not> (\<forall>c\<in>set name. isspace c)" and fresh: "name \<notin> cat_name ` set (categories s)"
  proof -
    have ns: "strip name \<noteq> []" using nonblank_strip [OF nb] by simp
    have none: "category_by_name s name = None"
      using fresh by (simp add: category_by_name_None)
    have res: "add_category form s = (Redirect Dashboard,
        flash (Plain ''Category added successfully!'') ''success''
          (s\<lparr>categories := categories s @
                [\<lparr>cat_id = next_id (map cat_id (categories s)), cat_name = name\<rparr>]\<rparr>))"
      using ns by (simp add: run none insert_category_def)
    have "next_id (map cat_id (categories s)) \<notin> cat_id ` set (categories s)"
      using next_id_fresh [of "map cat_id (categories s)"] by simp
    then have ex: "\<exists>k. k \<notin> cat_id ` set (categories s) \<and>
        categories s @ [\<lparr>cat_id = next_id (map cat_id (categories s)), cat_name = name\<rparr>] =
        categories s @ [\<lparr>cat_id = k, cat_name = name\<rparr>]"
      by blast
    show ?thesis unfolding res using nb fresh ex by simp
  qed
  show ?thesis using blank dup new by blast
qed

theorem add_category_effect_witness:
  "is_authenticated school \<and>
   isspace 32 \<and> isspace 9 \<and>
   store (snd (add_category [''name'' \<mapsto> [32, 9]] school)) = store school \<and>
   lit ''Staff'' \<in> cat_name ` set (categories school) \<and>
   store (snd (add_category [''name'' \<mapsto> lit ''Staff''] school)) = store school \<and>
   lit ''Alumni'' \<notin> cat_name ` set (categories school) \<and>
   map cat_name (categories (snd (add_category [''name'' \<mapsto> lit ''Alumni''] school))) =
     [lit ''Parents'', lit ''Staff'', lit ''Alumni'']"
proof -
  have sp: "isspace 32" "isspace 9" by (simp_all add: isspace_def)
  have b: "\<forall>c\<in>set [32, 9]. isspace c" using sp by simp
  have nb: "\<not> (\<forall>c\<in>set (lit ''Staff''). isspace c)" "\<not> (\<forall>c\<in>set (lit ''Alumni''). isspace c)"
    by (simp_all add: lit_def isspace_def)
  have old: "lit ''Staff'' \<in> cat_name ` set (categories school)"
    by (simp add: school_def staff_def)
  have fresh: "lit ''Alumni'' \<notin> cat_name ` set (categories school)"
    by (simp add: school_def staff_def parents_def lit_def)
  have 1: "store (snd (add_category [''name'' \<mapsto> [32, 9]] school)) = store school"
    using add_category_effect [OF school_authenticated, of "[''name'' \<mapsto> [32, 9]]" "[32, 9]"] b
    by simp
  have 2: "store (snd (add_category [''name'' \<mapsto> lit ''Staff''] school)) = store school"
    using add_category_effect [OF school_authenticated,
        of "[''name'' \<mapsto> lit ''Staff'']" "lit ''Staff''"] nb(1) old
    by simp
  have "\<exists>k. categories (snd (add_category [''name'' \<mapsto> lit ''Alumni''] school)) =
      categories school @ [\<lparr>cat_id = k, cat_name = lit ''Alumni''\<rparr>]"
    using add_category_effect [OF school_authenticated,
        of "[''name'' \<mapsto> lit ''Alumni'']" "lit ''Alumni''"] nb(2) fresh
    by auto
  then have 3: "map cat_name (categories (snd (add_category [''name'' \<mapsto> lit ''Alumni''] school))) =
      [lit ''Parents'', lit ''Staff'', lit ''Alumni'']"
    by (auto simp: school_def parents_def staff_def)
  show ?thesis using school_authenticated sp 1 old 2 fresh 3 by simp
qed

section \<open>Sending a message\<close>

lemma send_sms_run:
  assumes auth: "is_authenticated s" and cat: "get_category s cid = Some c"
    and msg: "form ''message'' = Some m" and nb: "\<not> (\<forall>ch\<in>set m. isspace ch)"
  shows "send_sms env post cid form s =
    (if category_contacts s c = [] then
       (Redirect (ViewContacts cid),
        flash (Plain ''No contacts found in this category!'') ''danger'' s)
     else
       (Redirect (ViewContacts cid),
        (case post (payload (MNOTIFY_API_KEY env) (map con_phone (category_contacts s c))
                      (SENDER_ID env) m) of
           Response status_code text \<Rightarrow>
             if status_code = 200 then
               flash (Plain ''Messages sent successfully!'') ''success''
                 (s\<lparr>outbox := outbox s @
                    [payload (MNOTIFY_API_KEY env) (map con_phone (category_contacts s c))
                       (SENDER_ID env) m]\<rparr>)
             else flash (WithText ''Failed to send SMS: '' text) ''danger''
                 (s\<lparr>outbox := outbox s @
                    [payload (MNOTIFY_API_KEY env) (map con_phone (category_contacts s c))
                       (SENDER_ID env) m]\<rparr>)
         | Raises e \<Rightarrow>
             flash (WithExn ''Error sending SMS: '' e) ''danger''
                 (s\<lparr>outbox := outbox s @
                    [payload (MNOTIFY_API_KEY env) (map con_phone (category_contacts s c))
                       (SENDER_ID env) m]\<rparr>))))"
proof -
  have id: "cat_id c = cid" using cat by (rule get_category_id)
  have ne: "m \<noteq> []" "strip m \<noteq> []" using nonblank_strip [OF nb] by simp_all
  show ?thesis
    unfolding send_sms_def login_required_auth [OF auth]
    by (simp add: category_query_get_present [OF cat] msg ne id Let_def)
qed

text \<open>
  C3: for an existing category with at least one contact and a message that is not
  blank, \<open>send_sms\<close> makes exactly one call to the vendor's endpoint; the request carries
  the configured API key and sender, the message, and the phone numbers of all the
  contacts of the category.
\<close>

theorem send_sms_one_request:
  assumes auth: "is_authenticated s" and cat: "get_category s cid = Some c"
    and some: "\<exists>k\<in>set (contacts s). con_category_id k = cid"
    and msg: "form ''message'' = Some m" and nb: "\<not> (\<forall>ch\<in>set m. isspace ch)"
  shows "\<exists>r. outbox (snd (send_sms env post cid form s)) = outbox s @ [r] \<and>
           url r = ''https://api.mnotify.com/api/sms/quick'' \<and>
           key r = MNOTIFY_API_KEY env \<and> sender r = SENDER_ID env \<and> message r = m \<and>
           recipient r = map con_phone (filter (\<lambda>k. con_category_id k = cid) (contacts s))"
proof -
  have cc: "category_contacts s c = filter (\<lambda>k. con_category_id k = cid) (contacts s)"
    using cat by (rule category_contacts_eq)
  have ne: "category_contacts s c \<noteq> []"
    using some by (simp add: cc filter_empty_conv)
  have "outbox (snd (send_sms env post cid form s)) = outbox s @
      [payload (MNOTIFY_API_KEY env) (map con_phone (category_contacts s c)) (SENDER_ID env) m]"
    by (simp add: send_sms_run [where form = form, OF auth cat msg nb] ne
        split: post_result.split)
  then show ?thesis by (simp add: payload_def cc)
qed

theorem send_sms_one_request_witness:
  "is_authenticated school \<and> get_category school 1 = Some parents \<and>
   ama \<in> set (contacts school) \<and> con_category_id ama = 1 \<and>
   hello ''message'' = Some (lit ''Hello'') \<and>
   (\<exists>r. outbox (snd (send_sms demo_env vendor_ok 1 hello school)) = [r] \<and>
        key r = Some (lit ''k-123'') \<and> sender r = Some (lit ''School'') \<and>
        message r = lit ''Hello'' \<and> recipient r = [lit ''0241234567''])"
proof -
  have k: "ama \<in> set (contacts school)" "con_category_id ama = 1"
    by (simp_all add: school_def ama_def)
  then have some: "\<exists>k\<in>set (contacts school). con_category_id k = 1" by blast
  have flds: "outbox school = []" "MNOTIFY_API_KEY demo_env = Some (lit ''k-123'')"
      "SENDER_ID demo_env = Some (lit ''School'')"
      "map con_phone (filter (\<lambda>k. con_category_id k = 1) (contacts school)) =
         [lit ''0241234567'']"
    by (simp_all add: school_def demo_env_def ama_def)
  have ex: "\<exists>r. outbox (snd (send_sms demo_env vendor_ok 1 hello school)) = outbox school @ [r] \<and>
      url r = ''https://api.mnotify.com/api/sms/quick'' \<and>
      key r = MNOTIFY_API_KEY demo_env \<and> sender r = SENDER_ID demo_env \<and>
      message r = lit ''Hello'' \<and>
      recipient r = map con_phone (filter (\<lambda>k. con_category_id k = 1) (contacts school))"
    by (rule send_sms_one_request [where form = hello, OF school_authenticated
          school_categories(1) some hello_nonblank])
  from ex have "\<exists>r. outbox (snd (send_sms demo_env vendor_ok 1 hello school)) = [r] \<and>
        key r = Some (lit ''k-123'') \<and> sender r = Some (lit ''School'') \<and>
        message r = lit ''Hello'' \<and> recipient r = [lit ''0241234567'']"
  proof (elim exE conjE)
    fix r
    assume o: "outbox (snd (send_sms demo_env vendor_ok 1 hello school)) = outbox school @ [r]"
      and ky: "key r = MNOTIFY_API_KEY demo_env" and sd: "sender r = SENDER_ID demo_env"
      and ms: "message r = lit ''Hello''"
      and rc: "recipient r =
        map con_phone (filter (\<lambda>k. con_category_id k = 1) (contacts school))"
    have 1: "outbox (snd (send_sms demo_env vendor_ok 1 hello school)) = [r]"
      unfolding o flds(1) by simp
    have 2: "key r = Some (lit ''k-123'')" unfolding ky by (rule flds(2))
    have 3: "sender r = Some (lit ''School'')" unfolding sd by (rule flds(3))
    have 4: "recipient r = [lit ''0241234567'']" unfolding rc by (rule flds(4))
    show ?thesis by (intro exI [of _ r] conjI 1 2 3 ms 4)
  qed
  then show ?thesis
    by (intro conjI school_authenticated school_categories(1) k hello_nonblank(1))
qed

text \<open>
  C4: for an existing category without contacts and a message that is not blank,
  \<open>send_sms\<close> calls the vendor not at all, writes nothing, and flashes that the category
  has no contacts.
\<close>

theorem send_sms_no_contacts:
  assumes auth: "is_authenticated s" and cat: "get_category s cid = Some c"
    and none: "\<forall>k\<in>set (contacts s). con_category_id k \<noteq> cid"
    and msg: "form ''message'' = Some m" and nb: "\<not> (\<forall>ch\<in>set m. isspace ch)"
  shows "outbox (snd (send_sms env post cid form s)) = outbox s \<and>
         store (snd (send_sms env post cid form s)) = store s \<and>
         fst (send_sms env post cid form s) = Redirect (ViewContacts cid) \<and>
         flashes (snd (send_sms env post cid form s)) =
           flashes s @ [(Plain ''No contacts found in this category!'', ''danger'')]"
proof -
  have cc: "category_contacts s c = filter (\<lambda>k. con_category_id k = cid) (contacts s)"
    using cat by (rule category_contacts_eq)
  have e: "category_contacts s c = []"
    using none by (simp add: cc filter_empty_conv)
  show ?thesis by (simp add: send_sms_run [where form = form, OF auth cat msg nb] e)
qed

theorem send_sms_no_contacts_witness:
  "is_authenticated school \<and> get_category school 2 = Some staff \<and>
   map con_category_id (contacts school) = [1] \<and>
   hello ''message'' = Some (lit ''Hello'') \<and>
   outbox (snd (send_sms demo_env vendor_ok 2 hello school)) = [] \<and>
   fst (send_sms demo_env vendor_ok 2 hello school) = Redirect (ViewContacts 2) \<and>
   flashes (snd (send_sms demo_env vendor_ok 2 hello school)) =
     [(Plain ''No contacts found in this category!'', ''danger'')]"
proof -
  have ids: "map con_category_id (contacts school) = [1]"
    by (simp add: school_def ama_def)
  have none: "\<forall>k\<in>set (contacts school). con_category_id k \<noteq> 2"
    by (simp add: school_def ama_def)
  have "outbox (snd (send_sms demo_env vendor_ok 2 hello school)) = outbox school \<and>
      store (snd (send_sms demo_env vendor_ok 2 hello school)) = store school \<and>
      fst (send_sms demo_env vendor_ok 2 hello school) = Redirect (ViewContacts 2) \<and>
      flashes (snd (send_sms demo_env vendor_ok 2 hello school)) =
        flashes school @ [(Plain ''No contacts found in this category!'', ''danger'')]"
    by (rule send_sms_no_contacts [where form = hello, OF school_authenticated
          school_categories(2) none hello_nonblank])
  then show ?thesis
    using school_authenticated school_categories(2) ids hello_nonblank(1)
    by (simp add: school_def)
qed

text \<open>
  C5: once the request is made, status 200 flashes success, any other status flashes a
  failure carrying the vendor's response text as it is, and an exception of the call is
  caught and flashed as a failure; the handler redirects in every case.
\<close>

theorem send_sms_vendor_outcome:
  assumes auth: "is_authenticated s" and cat: "get_category s cid = Some c"
    and some: "\<exists>k\<in>set (contacts s). con_category_id k = cid"
    and msg: "form ''message'' = Some m" and nb: "\<not> (\<forall>ch\<in>set m. isspace ch)"
    and req: "r = payload (MNOTIFY_API_KEY env)
                (map con_phone (filter (\<lambda>k. con_category_id k = cid) (contacts s)))
                (SENDER_ID env) m"
  shows "fst (send_sms env post cid form s) = Redirect (ViewContacts cid) \<and>
     (\<forall>text. post r = Response 200 text \<longrightarrow>
        flashes (snd (send_sms env post cid form s)) =
          flashes s @ [(Plain ''Messages sent successfully!'', ''success'')]) \<and>
     (\<forall>status text. post r = Response status text \<and> status \<noteq> 200 \<longrightarrow>
        flashes (snd (send_sms env post cid form s)) =
          flashes s @ [(WithText ''Failed to send SMS: '' text, ''danger'')]) \<and>
     (\<forall>e. post r = Raises e \<longrightarrow>
        flashes (snd (send_sms env post cid form s)) =
          flashes s @ [(WithExn ''Error sending SMS: '' e, ''danger'')])"
proof -
  have cc: "category_contacts s c = filter (\<lambda>k. con_category_id k = cid) (contacts s)"
    using cat by (rule category_contacts_eq)
  have ne: "category_contacts s c \<noteq> []"
    using some by (simp add: cc filter_empty_conv)
  have r: "payload (MNOTIFY_API_KEY env) (map con_phone (category_contacts s c))
      (SENDER_ID env) m = r"
    by (simp add: req cc)
  show ?thesis
    by (simp add: send_sms_run [where form = form, OF auth cat msg nb] ne r
        split: post_result.split)
qed

theorem send_sms_vendor_outcome_witness:
  "is_authenticated school \<and> get_category school 1 = Some parents \<and>
   ama \<in> set (contacts school) \<and> con_category_id ama = 1 \<and>
   hello ''message'' = Some (lit ''Hello'') \<and>
   flashes (snd (send_sms demo_env vendor_ok 1 hello school)) =
     [(Plain ''Messages sent successfully!'', ''success'')] \<and>
   flashes (snd (send_sms demo_env vendor_refuses 1 hello school)) =
     [(WithText ''Failed to send SMS: '' (lit ''invalid key''), ''danger'')] \<and>
   flashes (snd (send_sms demo_env vendor_down 1 hello school)) =
     [(WithExn ''Error sending SMS: '' (OtherException (lit ''timed out'')), ''danger'')] \<and>
   fst (send_sms demo_env vendor_down 1 hello school) = Redirect (ViewContacts 1)"
proof -
  have k: "ama \<in> set (contacts school)" "con_category_id ama = 1"
    by (simp_all add: school_def ama_def)
  then have some: "\<exists>k\<in>set (contacts school). con_category_id k = 1" by blast
  note out = send_sms_vendor_outcome [where form = hello and env = demo_env,
      OF school_authenticated school_categories(1) some hello_nonblank refl]
  have fl: "flashes school = []" by (simp add: school_def)
  have 1: "flashes (snd (send_sms demo_env vendor_ok 1 hello school)) =
      [(Plain ''Messages sent successfully!'', ''success'')]"
    using out [of vendor_ok] by (simp add: vendor_ok_def fl)
  have 2: "flashes (snd (send_sms demo_env vendor_refuses 1 hello school)) =
      [(WithText ''Failed to send SMS: '' (lit ''invalid key''), ''danger'')]"
    using out [of vendor_refuses] by (simp add: vendor_refuses_def fl)
  have 3: "flashes (snd (send_sms demo_env vendor_down 1 hello school)) =
      [(WithExn ''Error sending SMS: '' (OtherException (lit ''timed out'')), ''danger'')]"
    using out [of vendor_down] by (simp add: vendor_down_def fl)
  have 4: "fst (send_sms demo_env vendor_down 1 hello school) = Redirect (ViewContacts 1)"
    using out [of vendor_down] by blast
  show ?thesis
    using school_authenticated school_categories(1) k hello_nonblank(1) 1 2 3 4 by blast
qed

section \<open>Adding a contact\<close>

text \<open>
  C10: with an existing category and a form that has no \<open>phone\<close> field, \<open>add_contact\<close>
  ends in an uncaught \<open>AttributeError\<close> (\<open>None\<close> has no \<open>strip\<close>) and flashes nothing;
  a \<open>phone\<close> that is present and blank is reported by a flash and a redirect instead.
\<close>

theorem add_contact_missing_phone:
  assumes auth: "is_authenticated s" and cat: "get_category s cid = Some c"
  shows "(form ''phone'' = None \<longrightarrow> add_contact cid form s = (Uncaught AttributeError, s)) \<and>
     (\<forall>p. form ''phone'' = Some p \<and> (\<forall>ch\<in>set p. isspace ch) \<longrightarrow>
        add_contact cid form s =
          (Redirect (ViewContacts cid), flash (Plain ''Phone number is required!'') ''danger'' s))"
  unfolding add_contact_def login_required_auth [OF auth]
  by (simp add: category_query_get_present [OF cat] strip_empty_iff Let_def)

theorem add_contact_missing_phone_witness:
  "is_authenticated school \<and> get_category school 1 = Some parents \<and>
   add_contact 1 [''name'' \<mapsto> lit ''Kofi''] school = (Uncaught AttributeError, school) \<and>
   add_contact 1 [''name'' \<mapsto> lit ''Kofi'', ''phone'' \<mapsto> []] school =
     (Redirect (ViewContacts 1), flash (Plain ''Phone number is required!'') ''danger'' school)"
proof -
  note t = add_contact_missing_phone [OF school_authenticated school_categories(1)]
  have 1: "add_contact 1 [''name'' \<mapsto> lit ''Kofi''] school = (Uncaught AttributeError, school)"
    using t [of "[''name'' \<mapsto> lit ''Kofi'']"] by simp
  have 2: "add_contact 1 [''name'' \<mapsto> lit ''Kofi'', ''phone'' \<mapsto> []] school =
     (Redirect (ViewContacts 1), flash (Plain ''Phone number is required!'') ''danger'' school)"
    using t [of "[''name'' \<mapsto> lit ''Kofi'', ''phone'' \<mapsto> []]"] by simp
  show ?thesis using school_authenticated school_categories(1) 1 2 by blast
qed

section \<open>Editing a contact\<close>

lemma find_map_same:
  assumes "\<And>x. P (f x) = P x"
  shows "find P (map f xs) = map_option f (find P xs)"
  by (induction xs) (simp_all add: assms)

lemma find_holds: "find P xs = Some x \<Longrightarrow> P x"
  by (induction xs) (auto split: if_splits)

lemma school_contact:
  "get_contact school 1 = Some ama" "get_contact school 9 = None"
  by (simp_all add: get_contact_def school_def ama_def)

text \<open>
  For an existing contact and any two supplied values, blank ones included,
  \<open>edit_contact\<close> stores the values as the contact's name and phone without validating
  them; the owning category of every contact, the ids and every other contact stay as
  they are. An id below \<open>2 ^ 63\<close> that no contact has yields 404 and changes nothing.
\<close>

lemma edit_contact_overwrites:
  assumes auth: "is_authenticated s"
  shows "(k < 2 ^ 63 \<and> get_contact s k = None \<longrightarrow> edit_contact k form s = (Abort 404, s)) \<and>
    (\<forall>c n p. get_contact s k = Some c \<and> form ''name'' = Some n \<and> form ''phone'' = Some p \<longrightarrow>
       fst (edit_contact k form s) = Redirect (ViewContacts (con_category_id c)) \<and>
       get_contact (snd (edit_contact k form s)) k = Some (c\<lparr>con_name := n, con_phone := p\<rparr>) \<and>
       (\<forall>j. j \<noteq> k \<longrightarrow> get_contact (snd (edit_contact k form s)) j = get_contact s j) \<and>
       map con_id (contacts (snd (edit_contact k form s))) = map con_id (contacts s) \<and>
       map con_category_id (contacts (snd (edit_contact k form s))) =
         map con_category_id (contacts s) \<and>
       categories (snd (edit_contact k form s)) = categories s \<and>
       users (snd (edit_contact k form s)) = users s \<and>
       flashes (snd (edit_contact k form s)) =
         flashes s @ [(Plain ''Contact updated successfully!'', ''success'')])"
proof -
  have absent: "edit_contact k form s = (Abort 404, s)"
    if "k < 2 ^ 63" "get_contact s k = None"
    unfolding edit_contact_def login_required_auth [OF auth]
    using that by (simp add: contact_query_get_def)
  have present:
      "fst (edit_contact k form s) = Redirect (ViewContacts (con_category_id c)) \<and>
       get_contact (snd (edit_contact k form s)) k = Some (c\<lparr>con_name := n, con_phone := p\<rparr>) \<and>
       (\<forall>j. j \<noteq> k \<longrightarrow> get_contact (snd (edit_contact k form s)) j = get_contact s j) \<and>
       map con_id (contacts (snd (edit_contact k form s))) = map con_id (contacts s) \<and>
       map con_category_id (contacts (snd (edit_contact k form s))) =
         map con_category_id (contacts s) \<and>
       categories (snd (edit_contact k form s)) = categories s \<and>
       users (snd (edit_contact k form s)) = users s \<and>
       flashes (snd (edit_contact k form s)) =
         flashes s @ [(Plain ''Contact updated successfully!'', ''success'')]"
    if c: "get_contact s k = Some c" and n: "form ''name'' = Some n"
      and p: "form ''phone'' = Some p" for c n p
  proof -
    define f :: "contact \<Rightarrow> contact"
      where "f = (\<lambda>x. if con_id x = k then x\<lparr>con_name := n, con_phone := p\<rparr> else x)"
    have id: "con_id c = k"
      using c by (auto simp: get_contact_def dest: find_holds split: if_splits)
    have res: "edit_contact k form s = (Redirect (ViewContacts (con_category_id c)),
        flash (Plain ''Contact updated successfully!'') ''success''
          (s\<lparr>contacts := map f (contacts s)\<rparr>))"
      unfolding edit_contact_def login_required_auth [OF auth]
      by (simp add: contact_query_get_present [OF c] n p update_contact_def id f_def)
    have keep_id: "con_id (f x) = con_id x" for x by (simp add: f_def)
    have keep_cat: "con_category_id (f x) = con_category_id x" for x by (simp add: f_def)
    have look: "find (\<lambda>x. con_id x = j) (map f (contacts s)) =
        map_option f (find (\<lambda>x. con_id x = j) (contacts s))" for j
      by (rule find_map_same) (simp add: keep_id)
    have fc: "f c = c\<lparr>con_name := n, con_phone := p\<rparr>" by (simp add: f_def id)
    have same: "get_contact (s\<lparr>contacts := map f (contacts s)\<rparr>) k =
        Some (c\<lparr>con_name := n, con_phone := p\<rparr>)"
      using c by (simp add: get_contact_def look fc split: if_splits)
    have other: "get_contact (s\<lparr>contacts := map f (contacts s)\<rparr>) j = get_contact s j"
      if "j \<noteq> k" for j
    proof (cases "find (\<lambda>x. con_id x = j) (contacts s)")
      case None
      then show ?thesis by (simp add: get_contact_def look)
    next
      case (Some x)
      then have "con_id x = j" by (rule find_holds)
      then have "f x = x" using that by (simp add: f_def)
      then show ?thesis using Some by (simp add: get_contact_def look)
    qed
    have get_flash: "get_contact (flash m t s') = get_contact s'" for m t s'
      by (rule ext) (simp add: get_contact_def)
    show ?thesis
      unfolding res
      by (simp add: get_flash same other keep_id keep_cat cong: map_cong)
  qed
  show ?thesis using absent present by blast
qed

text \<open>
  C8 says that a contact id that no contact has yields a 404. \<open>get_or_404\<close> is meant to
  give it, but for the id \<open>2 ^ 63\<close>, which the route accepts and no contact has, the
  lookup raises \<open>OverflowError\<close> before any row is searched: the handler ends in an
  uncaught exception, not in a 404.
\<close>

theorem edit_contact_huge_id_raises:
  "is_authenticated school \<and> get_contact school (2 ^ 63) = None \<and>
   edit_contact (2 ^ 63) blanks school = (Uncaught OverflowError, school)"
proof -
  have 1: "get_contact school (2 ^ 63) = None"
    by (simp add: get_contact_def)
  have 2: "edit_contact (2 ^ 63) blanks school = (Uncaught OverflowError, school)"
    unfolding edit_contact_def login_required_auth [OF school_authenticated]
    by (simp add: contact_query_get_def)
  show ?thesis by (intro conjI school_authenticated 1 2)
qed

section \<open>Logging in\<close>

text \<open>
  C9: a POST of \<open>login\<close> with the username of a stored user and a password that
  \<open>check_password\<close> accepts for that user's hash stores the user's id in the session (the
  next request is authenticated), flashes success and redirects to the dashboard. With a
  username no user has, or a password that is not accepted, the session is left as it
  was, the error is flashed and the login form is rendered.
\<close>

theorem login_effect:
  assumes uname: "form ''username'' = Some uname" and pw: "form ''password'' = Some password"
  shows
    "(\<forall>u. user_by_username s uname = Some u \<and> check_password chk u password \<longrightarrow>
        fst (login chk POST form s) = Redirect Dashboard \<and>
        session_user_id (snd (login chk POST form s)) = Some (user_id u) \<and>
        is_authenticated (snd (login chk POST form s)) \<and>
        store (snd (login chk POST form s)) = store s \<and>
        flashes (snd (login chk POST form s)) =
          flashes s @ [(Plain ''Login successful!'', ''success'')]) \<and>
     (uname \<notin> username ` set (users s) \<or>
      (\<exists>u. user_by_username s uname = Some u \<and> \<not> check_password chk u password) \<longrightarrow>
        fst (login chk POST form s) = RenderTemplate ''login.html'' \<and>
        session_user_id (snd (login chk POST form s)) = session_user_id s \<and>
        store (snd (login chk POST form s)) = store s \<and>
        flashes (snd (login chk POST form s)) =
          flashes s @ [(Plain ''Invalid username or password'', ''danger'')])"
proof -
  have good:
      "fst (login chk POST form s) = Redirect Dashboard \<and>
        session_user_id (snd (login chk POST form s)) = Some (user_id u) \<and>
        is_authenticated (snd (login chk POST form s)) \<and>
        store (snd (login chk POST form s)) = store s \<and>
        flashes (snd (login chk POST form s)) =
          flashes s @ [(Plain ''Login successful!'', ''success'')]"
    if u: "user_by_username s uname = Some u" and ok: "check_password chk u password" for u
  proof -
    have res: "login chk POST form s =
        (Redirect Dashboard, flash (Plain ''Login successful!'') ''success'' (login_user u s))"
      by (simp add: login_def uname pw u ok)
    have "u \<in> set (users s)"
      using u by (auto simp: user_by_username_def find_Some_iff)
    then have "find (\<lambda>x. user_id x = user_id u) (users s) \<noteq> None"
      by (auto simp: find_None_iff)
    then have "is_authenticated (flash (Plain ''Login successful!'') ''success'' (login_user u s))"
      by (simp add: is_authenticated_def current_user_def load_user_def login_user_def)
    then show ?thesis
      unfolding res by (simp add: login_user_def store_def)
  qed
  have unknown: "login chk POST form s =
      (RenderTemplate ''login.html'', flash (Plain ''Invalid username or password'') ''danger'' s)"
    if "uname \<notin> username ` set (users s)"
  proof -
    have "user_by_username s uname = None"
      using that by (auto simp: user_by_username_def find_None_iff)
    then show ?thesis by (simp add: login_def uname pw)
  qed
  have wrong: "login chk POST form s =
      (RenderTemplate ''login.html'', flash (Plain ''Invalid username or password'') ''danger'' s)"
    if "user_by_username s uname = Some u" "\<not> check_password chk u password" for u
    using that by (simp add: login_def uname pw)
  have bad: "fst (login chk POST form s) = RenderTemplate ''login.html'' \<and>
        session_user_id (snd (login chk POST form s)) = session_user_id s \<and>
        store (snd (login chk POST form s)) = store s \<and>
        flashes (snd (login chk POST form s)) =
          flashes s @ [(Plain ''Invalid username or password'', ''danger'')]"
    if "login chk POST form s =
      (RenderTemplate ''login.html'', flash (Plain ''Invalid username or password'') ''danger'' s)"
    unfolding that by simp
  show ?thesis using good unknown wrong bad by blast
qed

theorem login_effect_witness:
  "user_by_username visitor (lit ''admin'') = Some admin \<and>
   check_password check_demo admin (lit ''12345'') \<and>
   session_user_id visitor = None \<and>
   fst (login check_demo POST (credentials (lit ''12345'')) visitor) = Redirect Dashboard \<and>
   session_user_id (snd (login check_demo POST (credentials (lit ''12345'')) visitor)) = Some 1 \<and>
   \<not> check_password check_demo admin (lit ''admin'') \<and>
   fst (login check_demo POST (credentials (lit ''admin'')) visitor) =
     RenderTemplate ''login.html'' \<and>
   session_user_id (snd (login check_demo POST (credentials (lit ''admin'')) visitor)) = None"
proof -
  have u: "user_by_username visitor (lit ''admin'') = Some admin"
    by (simp add: user_by_username_def visitor_def school_def admin_def)
  have ok: "check_password check_demo admin (lit ''12345'')"
    by (simp add: check_password_def check_demo_def admin_def lit_def)
  have no: "\<not> check_password check_demo admin (lit ''admin'')"
    by (simp add: check_password_def check_demo_def admin_def lit_def)
  have v: "session_user_id visitor = None" by (simp add: visitor_def)
  have f: "credentials pw ''username'' = Some (lit ''admin'')" "credentials pw ''password'' = Some pw"
    for pw by (simp_all add: credentials_def)
  note good = login_effect [where form = "credentials (lit ''12345'')" and s = visitor
      and chk = check_demo, OF f]
  note bad = login_effect [where form = "credentials (lit ''admin'')" and s = visitor
      and chk = check_demo, OF f]
  have 1: "fst (login check_demo POST (credentials (lit ''12345'')) visitor) = Redirect Dashboard"
    using good u ok by blast
  have "session_user_id (snd (login check_demo POST (credentials (lit ''12345'')) visitor)) =
      Some (user_id admin)"
    using good u ok by blast
  then have 2: "session_user_id (snd (login check_demo POST (credentials (lit ''12345'')) visitor)) =
      Some 1"
    by (simp add: admin_def)
  have 3: "fst (login check_demo POST (credentials (lit ''admin'')) visitor) =
     RenderTemplate ''login.html''"
    using bad u no by blast
  have "session_user_id (snd (login check_demo POST (credentials (lit ''admin'')) visitor)) =
      session_user_id visitor"
    using bad u no by blast
  then have 4: "session_user_id (snd (login check_demo POST (credentials (lit ''admin'')) visitor)) =
      None"
    by (simp add: v)
  show ?thesis by (intro conjI u ok v 1 2 no 3 4)
qed

section \<open>Importing contacts\<close>

lemma upload_contacts_run:
  assumes auth: "is_authenticated s" and cat: "get_category s cid = Some c"
    and upl: "files ''file'' = Some f" and fname: "filename f \<noteq> []"
    and saved: "save_raises f = None" and parsed: "read_excel f = Inr df"
  shows "upload_contacts cid files s =
    (Redirect (ViewContacts cid),
     (case iterrows (columns df) cid [] (rows df) of
        Inl e \<Rightarrow> flash (WithExn ''Error uploading contacts: '' e) ''danger'' s
      | Inr pending \<Rightarrow>
          (case insert_contacts (contacts s) pending of
             Inl e \<Rightarrow> flash (WithExn ''Error uploading contacts: '' e) ''danger'' s
           | Inr cs \<Rightarrow>
               flash (Plain ''Contacts uploaded successfully!'') ''success''
                 (s\<lparr>contacts := cs\<rparr>))))"
proof -
  have id: "cat_id c = cid" using cat by (rule get_category_id)
  show ?thesis
    unfolding upload_contacts_def login_required_auth [OF auth]
    by (simp add: category_query_get_present [OF cat] upl fname saved parsed id)
qed

lemma workbook_facts:
  "xlsx df ''file'' = Some (workbook df)" "filename (workbook df) \<noteq> []"
  "save_raises (workbook df) = None" "read_excel (workbook df) = Inr df"
  by (simp_all add: xlsx_def workbook_def lit_def)

lemmas upload_workbook =
  upload_contacts_run [where files = "xlsx df" and df = df for df, OF _ _ workbook_facts]

text \<open>
  C2 says that a row whose \<open>Phone\<close> is blank is skipped and creates no contact, and that
  the three-row sheet gives exactly two contacts. The loop of \<open>upload_contacts\<close> tests
  only whether the sheet has a \<open>Phone\<close> column and stores \<open>str\<close> of the cell, whatever it
  is. The two-row sheet, whose second row has a blank \<open>Phone\<close>, gives two contacts, the
  second with the phone \<open>nan\<close> (\<open>add_contact\<close> rejects a blank phone). The three-row
  sheet gives no contact at all: the blank \<open>Name\<close> of its third row fails the commit.
\<close>

theorem upload_contacts_blank_phone_stored:
  "contacts (snd (upload_contacts 2 (xlsx two_rows) school)) =
     [ama,
      \<lparr>con_id = 2, con_name = lit ''A'', con_phone = lit ''123.0'', con_category_id = 2\<rparr>,
      \<lparr>con_id = 3, con_name = lit ''B'', con_phone = lit ''nan'', con_category_id = 2\<rparr>] \<and>
   snd (upload_contacts 2 (xlsx three_rows) school) =
     flash (WithExn ''Error uploading contacts: '' IntegrityError) ''danger'' school"
proof -
  note run = upload_workbook [OF school_authenticated school_categories(2)]
  have cs: "contacts school = [ama]" by (simp add: school_def)
  have 1: "contacts (snd (upload_contacts 2 (xlsx two_rows) school)) =
     [ama,
      \<lparr>con_id = 2, con_name = lit ''A'', con_phone = lit ''123.0'', con_category_id = 2\<rparr>,
      \<lparr>con_id = 3, con_name = lit ''B'', con_phone = lit ''nan'', con_category_id = 2\<rparr>]"
    by (simp add: run two_rows_def float_cell_def row_get_def cs ama_def next_id_def lit_def)
  have 2: "snd (upload_contacts 2 (xlsx three_rows) school) =
     flash (WithExn ''Error uploading contacts: '' IntegrityError) ''danger'' school"
    by (simp add: run three_rows_def float_cell_def row_get_def cs ama_def next_id_def lit_def)
  show ?thesis by (intro conjI 1 2)
qed

section \<open>A contact without a name\<close>

text \<open>
  \<open>add_contact\<close> validates the phone only. With a phone that is not blank and a name in
  the form (an empty one will do) the contact is appended; without the \<open>name\<close> field the
  name is \<open>None\<close>, which the column \<open>name\<close> (\<open>nullable=False\<close>) rejects at the commit.
\<close>

lemma add_contact_with_name:
  assumes auth: "is_authenticated s" and cat: "get_category s cid = Some c"
    and phone: "form ''phone'' = Some p" and name: "form ''name'' = Some n"
  shows "((\<forall>ch\<in>set p. isspace ch) \<longrightarrow>
       add_contact cid form s =
         (Redirect (ViewContacts cid), flash (Plain ''Phone number is required!'') ''danger'' s)) \<and>
     (\<not> (\<forall>ch\<in>set p. isspace ch) \<longrightarrow>
       add_contact cid form s =
         (Redirect (ViewContacts cid),
          flash (Plain ''Contact added successfully!'') ''success''
            (s\<lparr>contacts := contacts s @
                 [\<lparr>con_id = next_id (map con_id (contacts s)), con_name = n, con_phone = p,
                   con_category_id = cid\<rparr>]\<rparr>)))"
proof -
  have id: "cat_id c = cid" using cat by (rule get_category_id)
  show ?thesis
    unfolding add_contact_def login_required_auth [OF auth]
    by (simp add: category_query_get_present [OF cat] phone name id strip_empty_iff Let_def)
qed

lemma add_contact_without_name:
  assumes auth: "is_authenticated s" and cat: "get_category s cid = Some c"
    and phone: "form ''phone'' = Some p" and nb: "\<not> (\<forall>ch\<in>set p. isspace ch)"
    and name: "form ''name'' = None"
  shows "add_contact cid form s = (Uncaught IntegrityError, s)"
proof -
  have ns: "strip p \<noteq> []" using nonblank_strip [OF nb] by simp
  show ?thesis
    unfolding add_contact_def login_required_auth [OF auth]
    by (simp add: category_query_get_present [OF cat] phone name ns Let_def)
qed

text \<open>
  C7 says that a contact is still created, individually or by import, when no name is
  supplied. The code passes \<open>None\<close> for the name in both paths and the schema rejects it:
  \<open>add_contact\<close> with a phone and no \<open>name\<close> field ends in an uncaught \<open>IntegrityError\<close> and
  writes nothing; the import of a sheet without a \<open>Name\<close> column flashes the error and
  writes nothing.
\<close>

theorem contact_without_name_rejected:
  "add_contact 1 [''phone'' \<mapsto> lit ''0200000000''] school = (Uncaught IntegrityError, school) \<and>
   upload_contacts 2 (xlsx phones_only) school =
     (Redirect (ViewContacts 2),
      flash (WithExn ''Error uploading contacts: '' IntegrityError) ''danger'' school)"
proof -
  have nb: "\<not> (\<forall>ch\<in>set (lit ''0200000000''). isspace ch)"
    by (simp add: lit_def isspace_def)
  have 1: "add_contact 1 [''phone'' \<mapsto> lit ''0200000000''] school =
      (Uncaught IntegrityError, school)"
    by (rule add_contact_without_name [where form = "[''phone'' \<mapsto> lit ''0200000000'']",
          OF school_authenticated school_categories(1) _ nb]) simp_all
  have 2: "upload_contacts 2 (xlsx phones_only) school =
     (Redirect (ViewContacts 2),
      flash (WithExn ''Error uploading contacts: '' IntegrityError) ''danger'' school)"
    by (simp add: upload_workbook [OF school_authenticated school_categories(2)]
        phones_only_def row_get_def lit_def)
  show ?thesis by (intro conjI 1 2)
qed

end
